theory Spec2Isabelle
  imports
    Main
    "HOL-Library.Word"
    "HOL-Library.Char_ord"
    "HOL-Library.List_Lexorder"
    "HOL-Library.Multiset"
begin

section \<open>Strings of the JavaScript runtime\<close>

text \<open>
  The client compares signer addresses with \<^verbatim>\<open>a.toLowerCase().localeCompare(b.toLowerCase())\<close>.
  Strings are lists of 8-bit code units; the strings of interest (hex addresses and hex
  signatures) are ASCII.

  \<open>toLowerCase\<close> maps the upper-case letters of the code units 0..255 to their lower-case
  partners (A..Z, and the Latin-1 capitals 0xC0..0xDE without the multiplication sign 0xD7)
  and leaves every other code unit alone.
\<close>

definition toLowerCase_char :: "char \<Rightarrow> char" where
  "toLowerCase_char c =
     (let n = (of_char c :: nat)
      in if (65 \<le> n \<and> n \<le> 90) \<or> (192 \<le> n \<and> n \<le> 222 \<and> n \<noteq> 215)
         then char_of (n + 32) else c)"

definition toLowerCase :: "string \<Rightarrow> string" where
  "toLowerCase s = map toLowerCase_char s"

text \<open>
  \<^verbatim>\<open>String.prototype.localeCompare\<close> is the collation of the runtime's locale: it is not
  part of the repository and its order depends on the locale, so it is a parameter of every
  function that sorts, named \<open>localeCompare\<close> as in the source. It returns a negative
  number, zero or a positive number.
\<close>

type_synonym collation = "string \<Rightarrow> string \<Rightarrow> int"

text \<open>
  The comparison of two strings code unit by code unit, a proper prefix before its
  extensions, with the result \<open>-1\<close>, \<open>0\<close> or \<open>1\<close>. It is not the collation: it serves to
  state what is assumed of the collation on address strings (\<open>addressCollation\<close> below), and
  as the collation of the sample inputs.
\<close>

fun codeUnitCompare :: collation where
  "codeUnitCompare [] [] = 0"
| "codeUnitCompare [] (y # ys) = -1"
| "codeUnitCompare (x # xs) [] = 1"
| "codeUnitCompare (x # xs) (y # ys) =
     (if (of_char x :: nat) < of_char y then -1
      else if (of_char y :: nat) < of_char x then 1
      else codeUnitCompare xs ys)"

section \<open>Array.prototype.sort\<close>

text \<open>
  \<^verbatim>\<open>arr.sort(cmp)\<close> is a stable sort (ECMAScript 2019): elements the comparator calls equal
  keep their relative order. The model is the stable insertion sort: an element goes in
  front of the first element of the sorted rest that it does not exceed. On a comparator
  that is a consistent three-way comparison of the array's elements every stable sort gives
  this result; on any comparator the result is a rearrangement of the array.
\<close>

fun insert_by :: "('a \<Rightarrow> 'a \<Rightarrow> int) \<Rightarrow> 'a \<Rightarrow> 'a list \<Rightarrow> 'a list" where
  "insert_by cmp x [] = [x]"
| "insert_by cmp x (y # ys) =
     (if cmp x y \<le> 0 then x # y # ys else y # insert_by cmp x ys)"

fun array_sort :: "('a \<Rightarrow> 'a \<Rightarrow> int) \<Rightarrow> 'a list \<Rightarrow> 'a list" where
  "array_sort cmp [] = []"
| "array_sort cmp (x # xs) = insert_by cmp x (array_sort cmp xs)"

section \<open>Errors, responses and observable effects\<close>

text \<open>
  Every \<^verbatim>\<open>throw\<close> and every rejected promise is a value. \<open>Error msg\<close> is
  \<^verbatim>\<open>new Error(msg)\<close> with a literal message; \<open>HttpError n\<close> is
  \<^verbatim>\<open>new Error(`HTTP error! status: ${response.status}`)\<close>; \<open>SafeNotFound c\<close> is
  \<^verbatim>\<open>new Error(`Safe not found on chain ${chainId}`)\<close>. \<open>FetchRejected\<close> and
  \<open>JsonRejected\<close> are the rejections of \<^verbatim>\<open>fetch\<close> and of \<^verbatim>\<open>response.json()\<close>. The
  remaining constructors are the errors of the ABI encoder.
\<close>

datatype error =
    Error string
  | HttpError nat
  | SafeNotFound string
  | FetchRejected
  | JsonRejected
  | AbiEncodingLengthMismatchError
  | InvalidAddressError
  | IntegerOutOfRangeError
  | AbiEncodingBytesSizeMismatchError
  | BytesSizeMismatchError
  | InvalidAbiValueError

text \<open>
  What a call does to the outside world, in order: the requests it issues (a \<open>Fetch\<close> of
  a URL, a \<open>Post\<close> of a signature to a URL), the lines it writes with
  \<^verbatim>\<open>console.error\<close>, the on-chain executions it starts (with the signature bundle it
  submits).
\<close>

datatype event =
    Fetch string
  | Post string string
  | ConsoleError string error
  | ExecuteTransaction string

text \<open>
  A response of \<^verbatim>\<open>fetch\<close>: its status and its body as \<^verbatim>\<open>response.json()\<close> delivers it
  (\<open>None\<close> when the promise rejects). \<^verbatim>\<open>response.ok\<close> holds for the statuses 200..299.
  The network is a function from the URL requested to the response, \<open>None\<close> when
  \<^verbatim>\<open>fetch\<close> itself rejects.
\<close>

record 'a Response =
  status :: nat
  json :: "'a option"

definition ok :: "'a Response \<Rightarrow> bool" where
  "ok response = (200 \<le> status response \<and> status response \<le> 299)"

type_synonym 'a network = "string \<Rightarrow> 'a Response option"

text \<open>
  A \<^verbatim>\<open>POST\<close> changes what the service has recorded: the service is a function from its
  state, the URL and the signature posted to its answer and its next state.
\<close>

type_synonym ('st, 'a) service = "'st \<Rightarrow> string \<Rightarrow> string \<Rightarrow> 'a Response option \<times> 'st"

text \<open>
  \<^verbatim>\<open>try { ... } catch (error) { console.error(tag, error); throw error; }\<close>: an error is
  logged and thrown again, a result passes.
\<close>

definition catch_log :: "string \<Rightarrow> (error + 'a) \<times> event list \<Rightarrow> (error + 'a) \<times> event list" where
  "catch_log tag r =
     (case fst r of
        Inl e \<Rightarrow> (Inl e, snd r @ [ConsoleError tag e])
      | Inr v \<Rightarrow> (Inr v, snd r))"

section \<open>The data of the client\<close>

record AddressInfo =
  value' :: string
  name :: "string option"
  logoUri :: "string option"

datatype VersionState = UP_TO_DATE | OUTDATED | UNKNOWN

text \<open>
  \<^verbatim>\<open>SafeInfo\<close> as the service's JSON delivers it; \<open>address\<close> and \<open>owners\<close> are optional
  here because \<^verbatim>\<open>getSafeInfo\<close> checks that they are present.
\<close>

record SafeInfo =
  address :: "AddressInfo option"
  chainId :: string
  nonce :: nat
  threshold :: nat
  owners :: "AddressInfo list option"
  implementation :: AddressInfo
  implementationVersionState :: VersionState
  modules :: "AddressInfo list option"
  fallbackHandler :: "AddressInfo option"
  guard :: "AddressInfo option"
  version :: string

record SafeClient =
  baseUrl :: string

text \<open>
  A confirmation: \<^verbatim>\<open>{ signer, signature }\<close>. The class reads \<^verbatim>\<open>signer.value\<close> (the signer
  is an \<open>AddressInfo\<close>); the tutorial's helper reads \<^verbatim>\<open>signer\<close> as a string.
\<close>

record 's Confirmation =
  signer :: 's
  signature :: string

text \<open>
  JavaScript arrays are objects passed by reference, and \<^verbatim>\<open>sort\<close> reorders its receiver.
  A store maps each array reference to the array's present contents.
\<close>

type_synonym ref = nat
type_synonym 's store = "ref \<Rightarrow> 's Confirmation list"

record DetailedExecutionInfo =
  confirmations :: ref
  confirmationsRequired :: int

record TxInfo =
  detailedExecutionInfo :: DetailedExecutionInfo

section \<open>SafeClient.getSafeInfo\<close>

text \<open>The regular expression \<^verbatim>\<open>/^0x[a-fA-F0-9]{40}$/\<close> and its \<^verbatim>\<open>test\<close>.\<close>

definition isHexDigit :: "char \<Rightarrow> bool" where
  "isHexDigit c =
     (let n = (of_char c :: nat)
      in (97 \<le> n \<and> n \<le> 102) \<or> (65 \<le> n \<and> n \<le> 70) \<or> (48 \<le> n \<and> n \<le> 57))"

fun test_safeAddress :: "string \<Rightarrow> bool" where
  "test_safeAddress (c0 # c1 # rest) =
     (c0 = CHR ''0'' \<and> c1 = CHR ''x'' \<and> length rest = 40 \<and> list_all isHexDigit rest)"
| "test_safeAddress _ = False"

text \<open>
  The source, its layout condensed:
  \<^verbatim>\<open>
  async getSafeInfo(chainId, safeAddress) {
    try {
      if (!chainId || !safeAddress) throw new Error('Chain ID and Safe address are required');
      if (!/^0x[a-fA-F0-9]{40}$/.test(safeAddress)) throw new Error('Invalid Safe address format');
      const response = await fetch(`${this.baseUrl}/v1/chains/${chainId}/safes/${safeAddress}`);
      if (response.status === 404) throw new Error(`Safe not found on chain ${chainId}`);
      if (!response.ok) throw new Error(`HTTP error! status: ${response.status}`);
      const safeInfo = await response.json();
      if (!safeInfo.address || !safeInfo.owners) throw new Error('Invalid Safe data received');
      return safeInfo;
    } catch (error) { console.error('Error in getSafeInfo:', error); throw error; }
  }
  \<close>
  A string is falsy exactly when it is empty.
\<close>

definition getSafeInfo_body ::
  "SafeClient \<Rightarrow> SafeInfo network \<Rightarrow> string \<Rightarrow> string \<Rightarrow> (error + SafeInfo) \<times> event list" where
  "getSafeInfo_body this fetch chainId' safeAddress =
     (if chainId' = [] \<or> safeAddress = []
      then (Inl (Error ''Chain ID and Safe address are required''), [])
      else if \<not> test_safeAddress safeAddress
      then (Inl (Error ''Invalid Safe address format''), [])
      else
        let url = baseUrl this @ ''/v1/chains/'' @ chainId' @ ''/safes/'' @ safeAddress
        in case fetch url of
             None \<Rightarrow> (Inl FetchRejected, [Fetch url])
           | Some response \<Rightarrow>
               if status response = 404 then (Inl (SafeNotFound chainId'), [Fetch url])
               else if \<not> ok response then (Inl (HttpError (status response)), [Fetch url])
               else (case json response of
                      None \<Rightarrow> (Inl JsonRejected, [Fetch url])
                    | Some safeInfo \<Rightarrow>
                        if address safeInfo = None \<or> owners safeInfo = None
                        then (Inl (Error ''Invalid Safe data received''), [Fetch url])
                        else (Inr safeInfo, [Fetch url])))"

definition getSafeInfo ::
  "SafeClient \<Rightarrow> SafeInfo network \<Rightarrow> string \<Rightarrow> string \<Rightarrow> (error + SafeInfo) \<times> event list" where
  "getSafeInfo this fetch chainId' safeAddress =
     catch_log ''Error in getSafeInfo:'' (getSafeInfo_body this fetch chainId' safeAddress)"

section \<open>SafeClient.signTransaction\<close>

text \<open>
  The source, its layout condensed:
  \<^verbatim>\<open>
  /** Add a confirmation to a transaction */
  async signTransaction(chainId, safeTxHash, signature) {
    try {
      const response = await fetch(
        `${this.baseUrl}/v1/chains/${chainId}/transactions/${safeTxHash}/confirmations`,
        { method: 'POST', headers: { 'Content-Type': 'application/json' },
          body: JSON.stringify({ signature }) });
      if (!response.ok) throw new Error(`HTTP error! status: ${response.status}`);
      return await response.json();
    } catch (error) { console.error('Error signing transaction:', error); throw error; }
  }
  \<close>
  The body of the request is the JSON object that holds the signature; the event and the
  service see the signature. The result is the outcome with its events, and the state of
  the service after the request.
\<close>

definition signTransaction ::
  "SafeClient \<Rightarrow> ('st, 'a) service \<Rightarrow> 'st \<Rightarrow> string \<Rightarrow> string \<Rightarrow> string \<Rightarrow>
     ((error + 'a) \<times> event list) \<times> 'st" where
  "signTransaction this post st chainId' safeTxHash signature' =
     (let url = baseUrl this @ ''/v1/chains/'' @ chainId' @ ''/transactions/'' @ safeTxHash @
                ''/confirmations'';
          answer = post st url signature'
      in (catch_log ''Error signing transaction:''
            (case fst answer of
               None \<Rightarrow> (Inl FetchRejected, [Post url signature'])
             | Some response \<Rightarrow>
                 if \<not> ok response then (Inl (HttpError (status response)), [Post url signature'])
                 else (case json response of
                         None \<Rightarrow> (Inl JsonRejected, [Post url signature'])
                       | Some body \<Rightarrow> (Inr body, [Post url signature']))),
          snd answer))"

section \<open>SafeClient.verifySignatures\<close>

text \<open>
  The source, its layout condensed:
  \<^verbatim>\<open>
  async verifySignatures(chainId, safeTxHash) {
    try {
      const response = await fetch(`${this.baseUrl}/v1/chains/${chainId}/transactions/${safeTxHash}`);
      if (!response.ok) throw new Error(`HTTP error! status: ${response.status}`);
      const txInfo = await response.json();
      return txInfo.detailedExecutionInfo.confirmations.length
               >= txInfo.detailedExecutionInfo.confirmationsRequired;
    } catch (error) { console.error('Error verifying signatures:', error); throw error; }
  }
  \<close>
  The parsed \<open>confirmations\<close> array lives in the store \<open>h\<close>.
\<close>

definition verifySignatures ::
  "SafeClient \<Rightarrow> TxInfo network \<Rightarrow> 's store \<Rightarrow> string \<Rightarrow> string \<Rightarrow> (error + bool) \<times> event list" where
  "verifySignatures this fetch h chainId' safeTxHash =
     catch_log ''Error verifying signatures:''
       (let url = baseUrl this @ ''/v1/chains/'' @ chainId' @ ''/transactions/'' @ safeTxHash
        in case fetch url of
             None \<Rightarrow> (Inl FetchRejected, [Fetch url])
           | Some response \<Rightarrow>
               if \<not> ok response then (Inl (HttpError (status response)), [Fetch url])
               else (case json response of
                      None \<Rightarrow> (Inl JsonRejected, [Fetch url])
                    | Some txInfo \<Rightarrow>
                        let submitted = int (length (h (confirmations (detailedExecutionInfo txInfo))));
                            required = confirmationsRequired (detailedExecutionInfo txInfo)
                        in (Inr (submitted \<ge> required), [Fetch url])))"

section \<open>SafeClient.combineSignatures\<close>

text \<open>
  The comparator handed to \<^verbatim>\<open>sort\<close> by \<^verbatim>\<open>combineSignatures\<close>, over the collation of the
  runtime.
\<close>

definition compareSigners ::
  "collation \<Rightarrow> AddressInfo Confirmation \<Rightarrow> AddressInfo Confirmation \<Rightarrow> int" where
  "compareSigners localeCompare a b =
     localeCompare (toLowerCase (value' (signer a))) (toLowerCase (value' (signer b)))"

text \<open>\<^verbatim>\<open>s.slice(2)\<close> and \<^verbatim>\<open>arr.join('')\<close>.\<close>

definition slice2 :: "string \<Rightarrow> string" where
  "slice2 s = drop 2 s"

definition join_empty :: "string list \<Rightarrow> string" where
  "join_empty ss = concat ss"

text \<open>
  The source, its layout condensed:
  \<^verbatim>\<open>
  combineSignatures(signatures) {
    const sortedSigs = signatures.sort((a, b) =>
      a.signer.value.toLowerCase().localeCompare(b.signer.value.toLowerCase()));
    return '0x' + sortedSigs.map(sig => sig.signature.slice(2)).join('');
  }
  \<close>
  \<^verbatim>\<open>sort\<close> returns its receiver, so \<open>sortedSigs\<close> is the reference \<open>signatures\<close> again,
  read in the updated store.
\<close>

definition combineSignatures ::
  "collation \<Rightarrow> ref \<Rightarrow> AddressInfo store \<Rightarrow> string \<times> AddressInfo store" where
  "combineSignatures localeCompare signatures h =
     (let h' = h(signatures := array_sort (compareSigners localeCompare) (h signatures));
          sortedSigs = signatures
      in (''0x'' @ join_empty (map (\<lambda>sig. slice2 (signature sig)) (h' sortedSigs)), h'))"

text \<open>The lower-cased signer address of a confirmation: the key of the sort.\<close>

definition signerKey :: "AddressInfo Confirmation \<Rightarrow> string" where
  "signerKey c = toLowerCase (value' (signer c))"

text \<open>
  The confirmations whose signer is an address string: \<open>0x\<close> and forty hex digits, the
  strings that \<open>test_safeAddress\<close> accepts.
\<close>

definition addressSigners :: "AddressInfo Confirmation list \<Rightarrow> bool" where
  "addressSigners cs = list_all (\<lambda>c. test_safeAddress (value' (signer c))) cs"

text \<open>
  What is assumed of the runtime's collation, and only where a theorem says so: on two
  lower-cased address strings its result has the sign of the comparison by code units
  (digits before letters, letters in alphabetical order). The root collation and the
  collations that do not tailor the digits and the letters a to f, nor pairs of them,
  satisfy it; on other strings (punctuation, control characters) nothing is assumed.
\<close>

definition addressCollation :: "collation \<Rightarrow> bool" where
  "addressCollation localeCompare =
     (\<forall>a b. test_safeAddress a \<and> test_safeAddress b \<longrightarrow>
        sgn (localeCompare (toLowerCase a) (toLowerCase b))
          = codeUnitCompare (toLowerCase a) (toLowerCase b))"

text \<open>
  A 65-byte signature as the service sends it: \<open>0x\<close> and 130 hex digits.
\<close>

definition signature65 :: "string \<Rightarrow> bool" where
  "signature65 s = (take 2 s = ''0x'' \<and> length s = 132 \<and> list_all isHexDigit (drop 2 s))"

section \<open>The tutorial's execution flow\<close>

text \<open>
  The tutorial's helper sorts by \<^verbatim>\<open>signer\<close> (a string) and returns the payloads without
  the prefix:
  \<^verbatim>\<open>
  const combineSignatures = (signatures) => {
    const sortedSigs = signatures.sort((a, b) =>
      a.signer.toLowerCase().localeCompare(b.signer.toLowerCase()))
    return sortedSigs.map(sig => sig.signature.slice(2)).join('')
  }
  \<close>
\<close>

definition tutorial_compareSigners ::
  "collation \<Rightarrow> string Confirmation \<Rightarrow> string Confirmation \<Rightarrow> int" where
  "tutorial_compareSigners localeCompare a b =
     localeCompare (toLowerCase (signer a)) (toLowerCase (signer b))"

definition tutorial_combineSignatures ::
  "collation \<Rightarrow> ref \<Rightarrow> string store \<Rightarrow> string \<times> string store" where
  "tutorial_combineSignatures localeCompare signatures h =
     (let h' = h(signatures := array_sort (tutorial_compareSigners localeCompare) (h signatures));
          sortedSigs = signatures
      in (join_empty (map (\<lambda>sig. slice2 (signature sig)) (h' sortedSigs)), h'))"

text \<open>
  The transaction record the tutorial's flow reads: the two counters of the service, the
  array of signatures and the transaction data handed on to the execution.
\<close>

record 'd TutorialTxInfo =
  confirmationsSubmitted :: int
  confirmationsRequired' :: int
  signatures' :: ref
  transactionData :: 'd

text \<open>
  The source, its layout condensed:
  \<^verbatim>\<open>
  const completeExecutionFlow = async (chainId, safeAddress, safeTxHash, executorAddress) => {
    try {
      const response = await fetch(
        `https://safe-client.safe.global/v1/chains/${chainId}/transactions/${safeTxHash}`)
      if (!response.ok) throw new Error(`HTTP error! status: ${response.status}`)
      const txInfo = await response.json()
      if (txInfo.confirmationsSubmitted < txInfo.confirmationsRequired)
        throw new Error('Not enough signatures to execute transaction')
      const signatures = `0x${combineSignatures(txInfo.signatures)}`
      const receipt = await executeTransaction(chainId, safeAddress,
        { ...txInfo.transactionData, signatures }, executorAddress)
      return receipt
    } catch (error) { console.error('Error executing transaction:', error); throw error }
  }
  \<close>
  \<^verbatim>\<open>executeTransaction\<close> talks to the chain through the viem clients; it is the parameter
  \<open>executeTransaction\<close>, from the chain id, the Safe address, the transaction data with the
  bundle and the executor to a receipt or an error. The chain id, a \<^verbatim>\<open>bigint\<close>, is the
  decimal string that the URL template makes of it. The collation its helper sorts with is
  the parameter \<open>localeCompare\<close>. The result is the outcome, the events and the store after
  the call.
\<close>

definition completeExecutionFlow ::
  "collation \<Rightarrow> 'd TutorialTxInfo network \<Rightarrow>
     (string \<Rightarrow> string \<Rightarrow> 'd \<times> string \<Rightarrow> string \<Rightarrow> error + 'r) \<Rightarrow>
     string store \<Rightarrow> string \<Rightarrow> string \<Rightarrow> string \<Rightarrow> string \<Rightarrow>
     (error + 'r) \<times> event list \<times> string store" where
  "completeExecutionFlow localeCompare fetch executeTransaction h chainId' safeAddress safeTxHash
     executorAddress =
     (let url = ''https://safe-client.safe.global/v1/chains/'' @ chainId' @ ''/transactions/'' @ safeTxHash;
          tag = ''Error executing transaction:''
      in case fetch url of
           None \<Rightarrow> (Inl FetchRejected, [Fetch url, ConsoleError tag FetchRejected], h)
         | Some response \<Rightarrow>
             if \<not> ok response
             then (Inl (HttpError (status response)),
                   [Fetch url, ConsoleError tag (HttpError (status response))], h)
             else (case json response of
                    None \<Rightarrow> (Inl JsonRejected, [Fetch url, ConsoleError tag JsonRejected], h)
                  | Some txInfo \<Rightarrow>
                      if confirmationsSubmitted txInfo < confirmationsRequired' txInfo
                      then (Inl (Error ''Not enough signatures to execute transaction''),
                            [Fetch url,
                             ConsoleError tag (Error ''Not enough signatures to execute transaction'')], h)
                      else
                        let combined = tutorial_combineSignatures localeCompare (signatures' txInfo) h;
                            signatures = ''0x'' @ fst combined
                        in (case executeTransaction chainId' safeAddress
                                   (transactionData txInfo, signatures) executorAddress of
                              Inl e \<Rightarrow> (Inl e, [Fetch url, ExecuteTransaction signatures,
                                                ConsoleError tag e], snd combined)
                            | Inr receipt \<Rightarrow> (Inr receipt, [Fetch url, ExecuteTransaction signatures],
                                                snd combined))))"

section \<open>The Safe transaction hash\<close>

text \<open>
  A \<^verbatim>\<open>0x\<close>-prefixed hex string (\<^verbatim>\<open>Hex\<close>, \<^verbatim>\<open>Hash\<close>, an address) is modelled by the bytes it
  denotes; \<^verbatim>\<open>bigint\<close> and \<^verbatim>\<open>number\<close> are unbounded integers.
\<close>

type_synonym byte = "8 word"
type_synonym Hex = "byte list"

record SafeTransactionData =
  to :: Hex
  tx_value :: int
  data :: Hex
  operation :: int
  safeTxGas :: int
  baseGas :: int
  gasPrice :: int
  gasToken :: Hex
  refundReceiver :: Hex
  tx_nonce :: int

definition SAFE_TX_TYPEHASH :: Hex where
  "SAFE_TX_TYPEHASH =
     [0xBB, 0x83, 0x10, 0xD4, 0x86, 0x36, 0x8D, 0xB6, 0xBD, 0x6F, 0x84, 0x94, 0x02, 0xFD, 0xD7, 0x3A,
      0xD5, 0x3D, 0x31, 0x6B, 0x5A, 0x4B, 0x26, 0x44, 0xAD, 0x6E, 0xFE, 0x0F, 0x94, 0x12, 0x86, 0xD8]"

definition DOMAIN_SEPARATOR_TYPEHASH :: Hex where
  "DOMAIN_SEPARATOR_TYPEHASH =
     [0x47, 0xE7, 0x95, 0x34, 0xA2, 0x45, 0x95, 0x2E, 0x8B, 0x16, 0x89, 0x3A, 0x33, 0x6B, 0x85, 0xA3,
      0xD9, 0xEA, 0x9F, 0xA8, 0xC5, 0x73, 0xF3, 0xD8, 0x03, 0xAF, 0xB9, 0x2A, 0x79, 0x46, 0x92, 0x18]"

subsection \<open>The encoders of the viem package\<close>

text \<open>
  Modelled from the spec: \<^verbatim>\<open>encodeAbiParameters\<close> and \<^verbatim>\<open>encodePacked\<close> are imported from the
  viem package, whose code is not part of the repository. The spec (section 4.1) fixes what
  they do on the types the client uses: every value of the ABI encoding takes one 32-byte
  slot; an unsigned integer is written big-endian; a 20-byte address is left-padded with
  zero bytes; a \<open>bytes32\<close> fills its slot; the packed encoding is the tight concatenation
  of the values. Section 7 names the failures: a wrong-length address, a negative or an
  oversized integer; a \<open>bytesN\<close> value of another length is refused alike. The types are
  the ones the client names: \<open>address\<close>, \<open>uintN\<close> and \<open>bytesN\<close>; a value is a hex string
  or an integer.
\<close>

datatype AbiType = T_address | T_uint nat | T_bytes nat

datatype AbiValue = V_hex Hex | V_int int

text \<open>
  Modelled from the spec: the \<open>n\<close> low bytes of a number, most significant byte first
  (the big-endian integer of a slot).
\<close>

fun numberToBytes :: "nat \<Rightarrow> nat \<Rightarrow> byte list" where
  "numberToBytes 0 v = []"
| "numberToBytes (Suc n) v = numberToBytes n (v div 256) @ [of_nat (v mod 256)]"

text \<open>
  Modelled from the spec: the slot of one value (viem's encoder of a single parameter). A
  value of the wrong kind for its type is refused.
\<close>

fun encodeParam :: "AbiType \<Rightarrow> AbiValue \<Rightarrow> error + byte list" where
  "encodeParam T_address (V_hex a) =
     (if length a = 20 then Inr (replicate 12 0 @ a) else Inl InvalidAddressError)"
| "encodeParam (T_uint n) (V_int v) =
     (if 0 \<le> v \<and> v \<le> 2 ^ n - 1 then Inr (numberToBytes 32 (nat v)) else Inl IntegerOutOfRangeError)"
| "encodeParam (T_bytes n) (V_hex b) =
     (if length b = n then Inr (b @ replicate (32 - n) 0) else Inl AbiEncodingBytesSizeMismatchError)"
| "encodeParam _ _ = Inl InvalidAbiValueError"

text \<open>
  Modelled from the spec: viem's \<^verbatim>\<open>encodeAbiParameters\<close> on static types, the slots one after
  the other; the lists of types and of values must have the same length.
\<close>

fun encodeParams :: "AbiType list \<Rightarrow> AbiValue list \<Rightarrow> error + byte list" where
  "encodeParams [] [] = Inr []"
| "encodeParams (t # ts) (v # vs) =
     (case encodeParam t v of
        Inl e \<Rightarrow> Inl e
      | Inr slot \<Rightarrow> (case encodeParams ts vs of Inl e \<Rightarrow> Inl e | Inr rest \<Rightarrow> Inr (slot @ rest)))"
| "encodeParams _ _ = Inl AbiEncodingLengthMismatchError"

definition encodeAbiParameters :: "AbiType list \<Rightarrow> AbiValue list \<Rightarrow> error + byte list" where
  "encodeAbiParameters params values =
     (if length params \<noteq> length values then Inl AbiEncodingLengthMismatchError
      else encodeParams params values)"

text \<open>
  Modelled from the spec: viem's \<^verbatim>\<open>encodePacked\<close> on \<open>bytesN\<close> types (each given by its
  \<open>N\<close>): every value as it is, if it has \<open>N\<close> bytes, with no padding between them.
\<close>

fun encodePacked :: "nat list \<Rightarrow> Hex list \<Rightarrow> error + byte list" where
  "encodePacked [] [] = Inr []"
| "encodePacked (n # ns) (b # bs) =
     (if length b \<noteq> n then Inl BytesSizeMismatchError
      else case encodePacked ns bs of Inl e \<Rightarrow> Inl e | Inr rest \<Rightarrow> Inr (b @ rest))"
| "encodePacked _ _ = Inl AbiEncodingLengthMismatchError"

subsection \<open>calculateSafeTransactionHash\<close>

text \<open>
  \<^verbatim>\<open>keccak256\<close> is viem's too; it is the parameter \<open>keccak256\<close> of the model, from the bytes
  hashed to the digest. The method, each \<^verbatim>\<open>{ type: 'T', name: 'n' }\<close> abridged to \<^verbatim>\<open>T n\<close>:
  \<^verbatim>\<open>
  async calculateSafeTransactionHash(safeAddress, chainId, txData) {
    const domainSeparator = keccak256(encodeAbiParameters(
      [bytes32 typeHash, uint256 chainId, address safe],
      [DOMAIN_SEPARATOR_TYPEHASH, chainId, safeAddress]));
    const safeTxHash = keccak256(encodeAbiParameters(
      [bytes32 typeHash, address to, uint256 value, bytes32 dataHash, uint8 operation,
       uint256 safeTxGas, uint256 baseGas, uint256 gasPrice, address gasToken,
       address refundReceiver, uint256 nonce],
      [SAFE_TX_TYPEHASH, txData.to, txData.value, keccak256(txData.data), txData.operation,
       txData.safeTxGas, txData.baseGas, txData.gasPrice, txData.gasToken,
       txData.refundReceiver, txData.nonce]));
    return keccak256(encodePacked(['bytes1', 'bytes1', 'bytes32', 'bytes32'],
                                  ['0x19', '0x01', domainSeparator, safeTxHash]));
  }
  \<close>
  The method has no \<^verbatim>\<open>try\<close>, no \<^verbatim>\<open>fetch\<close> and no \<^verbatim>\<open>console\<close> call: its list of events
  is empty on every path.
\<close>

definition calculateSafeTransactionHash ::
  "SafeClient \<Rightarrow> (byte list \<Rightarrow> Hex) \<Rightarrow> Hex \<Rightarrow> int \<Rightarrow> SafeTransactionData \<Rightarrow>
     (error + Hex) \<times> event list" where
  "calculateSafeTransactionHash this keccak256 safeAddress chainId' txData =
     (case encodeAbiParameters
             [T_bytes 32, T_uint 256, T_address]
             [V_hex DOMAIN_SEPARATOR_TYPEHASH, V_int chainId', V_hex safeAddress] of
        Inl e \<Rightarrow> (Inl e, [])
      | Inr domainEncoded \<Rightarrow>
          let domainSeparator = keccak256 domainEncoded
          in (case encodeAbiParameters
                    [T_bytes 32, T_address, T_uint 256, T_bytes 32, T_uint 8, T_uint 256,
                     T_uint 256, T_uint 256, T_address, T_address, T_uint 256]
                    [V_hex SAFE_TX_TYPEHASH, V_hex (to txData), V_int (tx_value txData),
                     V_hex (keccak256 (data txData)), V_int (operation txData),
                     V_int (safeTxGas txData), V_int (baseGas txData), V_int (gasPrice txData),
                     V_hex (gasToken txData), V_hex (refundReceiver txData),
                     V_int (tx_nonce txData)] of
               Inl e \<Rightarrow> (Inl e, [])
             | Inr txEncoded \<Rightarrow>
                 let safeTxHash = keccak256 txEncoded
                 in (case encodePacked [1, 1, 32, 32] [[0x19], [0x01], domainSeparator, safeTxHash] of
                       Inl e \<Rightarrow> (Inl e, [])
                     | Inr packed \<Rightarrow> (Inr (keccak256 packed), []))))"

subsection \<open>The hash as the specification words it\<close>

text \<open>
  The inputs the specification speaks of: a SafeContext is a 20-byte address and an unsigned
  256-bit chain id; a SafeTransaction has 20-byte addresses, unsigned 256-bit amounts and an
  operation that fits 8 bits. The digest has 32 bytes.
\<close>

definition digest32 :: "(byte list \<Rightarrow> Hex) \<Rightarrow> bool" where
  "digest32 keccak256 = (\<forall>bs. length (keccak256 bs) = 32)"

definition uint256 :: "int \<Rightarrow> bool" where
  "uint256 v = (0 \<le> v \<and> v < 2 ^ 256)"

definition valid_SafeContext :: "Hex \<Rightarrow> int \<Rightarrow> bool" where
  "valid_SafeContext safeAddress chainId' = (length safeAddress = 20 \<and> uint256 chainId')"

definition valid_SafeTransaction :: "SafeTransactionData \<Rightarrow> bool" where
  "valid_SafeTransaction tx =
     (length (to tx) = 20 \<and> uint256 (tx_value tx) \<and> 0 \<le> operation tx \<and> operation tx < 256 \<and>
      uint256 (safeTxGas tx) \<and> uint256 (baseGas tx) \<and> uint256 (gasPrice tx) \<and>
      length (gasToken tx) = 20 \<and> length (refundReceiver tx) = 20 \<and> uint256 (tx_nonce tx))"

text \<open>
  The slots, in the spec's words: an unsigned 256-bit integer big-endian on 32 bytes; an
  8-bit unsigned integer padded to 32 bytes; an address left-zero-padded to 32 bytes.
\<close>

definition be_value :: "byte list \<Rightarrow> nat" where
  "be_value bs = foldl (\<lambda>acc b. 256 * acc + unat b) 0 bs"

definition spec_uint8_slot :: "int \<Rightarrow> byte list" where
  "spec_uint8_slot v = replicate 31 0 @ [of_int v]"

definition spec_address_slot :: "Hex \<Rightarrow> byte list" where
  "spec_address_slot a = replicate 12 0 @ a"

definition spec_uint256_slot :: "int \<Rightarrow> byte list" where
  "spec_uint256_slot v = numberToBytes 32 (nat v)"

definition spec_domainSeparator :: "(byte list \<Rightarrow> Hex) \<Rightarrow> Hex \<Rightarrow> int \<Rightarrow> Hex" where
  "spec_domainSeparator digest safeAddress chainId' =
     digest (DOMAIN_SEPARATOR_TYPEHASH @ spec_uint256_slot chainId' @ spec_address_slot safeAddress)"

definition spec_structHash :: "(byte list \<Rightarrow> Hex) \<Rightarrow> SafeTransactionData \<Rightarrow> Hex" where
  "spec_structHash digest tx =
     digest (SAFE_TX_TYPEHASH @ spec_address_slot (to tx) @ spec_uint256_slot (tx_value tx) @
             digest (data tx) @ spec_uint8_slot (operation tx) @ spec_uint256_slot (safeTxGas tx) @
             spec_uint256_slot (baseGas tx) @ spec_uint256_slot (gasPrice tx) @
             spec_address_slot (gasToken tx) @ spec_address_slot (refundReceiver tx) @
             spec_uint256_slot (tx_nonce tx))"

definition spec_packed :: "(byte list \<Rightarrow> Hex) \<Rightarrow> Hex \<Rightarrow> int \<Rightarrow> SafeTransactionData \<Rightarrow> byte list" where
  "spec_packed digest safeAddress chainId' tx =
     [0x19, 0x01] @ spec_domainSeparator digest safeAddress chainId' @ spec_structHash digest tx"

section \<open>Sample inputs\<close>

text \<open>
  Concrete inputs on which the theorems below are exercised: a client, two confirmations of
  different signers and a second confirmation of the first signer, stores holding them in
  several orders, canned networks, and the tutorial's transfer of 1 wei to the address
  \<^verbatim>\<open>0x000000000000000000000000000000000000dEaD\<close> on chain 100.
\<close>

definition sample_client :: SafeClient where
  "sample_client = \<lparr>baseUrl = ''https://safe-client.safe.global''\<rparr>"

definition conf_cA11 :: "AddressInfo Confirmation" where
  "conf_cA11 =
     \<lparr>signer = \<lparr>value' = ''0xcA11bde05977b3631167028862bE2a173976CA11'', name = None, logoUri = None\<rparr>,
      signature = ''0x'' @ replicate 130 (CHR ''a'')\<rparr>"

definition conf_dEaD :: "AddressInfo Confirmation" where
  "conf_dEaD =
     \<lparr>signer = \<lparr>value' = ''0x000000000000000000000000000000000000dEaD'', name = None, logoUri = None\<rparr>,
      signature = ''0x'' @ replicate 130 (CHR ''1'')\<rparr>"

definition conf_cA11_again :: "AddressInfo Confirmation" where
  "conf_cA11_again =
     \<lparr>signer = \<lparr>value' = ''0xcA11bde05977b3631167028862bE2a173976CA11'', name = None, logoUri = None\<rparr>,
      signature = ''0x'' @ replicate 130 (CHR ''f'')\<rparr>"

definition conf_ca11_lower :: "AddressInfo Confirmation" where
  "conf_ca11_lower =
     \<lparr>signer = \<lparr>value' = ''0xca11bde05977b3631167028862be2a173976ca11'', name = None, logoUri = None\<rparr>,
      signature = ''0x'' @ replicate 130 (CHR ''f'')\<rparr>"

definition store_mixed_lower :: "AddressInfo store" where
  "store_mixed_lower = (\<lambda>r. [conf_cA11, conf_ca11_lower])"

definition store_lower_mixed :: "AddressInfo store" where
  "store_lower_mixed = (\<lambda>r. [conf_ca11_lower, conf_cA11])"

definition store_empty :: "AddressInfo store" where
  "store_empty = (\<lambda>r. [])"

definition store_one :: "AddressInfo store" where
  "store_one = (\<lambda>r. [conf_dEaD])"

definition store_ca_de :: "AddressInfo store" where
  "store_ca_de = (\<lambda>r. [conf_cA11, conf_dEaD])"

definition store_de_ca :: "AddressInfo store" where
  "store_de_ca = (\<lambda>r. [conf_dEaD, conf_cA11])"

definition store_twice :: "AddressInfo store" where
  "store_twice = (\<lambda>r. [conf_cA11, conf_cA11_again])"

definition sample_signature :: string where
  "sample_signature = ''0x'' @ replicate 130 (CHR ''1'')"

text \<open>
  A service that records every signature posted to it and answers 200 with the number of
  signatures it then holds; and a service that answers a repeated signature with 400.
\<close>

definition recording_service :: "(string list, nat) service" where
  "recording_service recorded url posted =
     (Some \<lparr>status = 200, json = Some (length recorded + 1)\<rparr>, recorded @ [posted])"

definition strict_service :: "(string list, nat) service" where
  "strict_service recorded url posted =
     (if posted \<in> set recorded then (Some \<lparr>status = 400, json = None\<rparr>, recorded)
      else (Some \<lparr>status = 200, json = Some (length recorded + 1)\<rparr>, recorded @ [posted]))"

definition sample_txInfo :: TxInfo where
  "sample_txInfo = \<lparr>detailedExecutionInfo = \<lparr>confirmations = 0, confirmationsRequired = 2\<rparr>\<rparr>"

definition network_txInfo :: "TxInfo network" where
  "network_txInfo = (\<lambda>url. Some \<lparr>status = 200, json = Some sample_txInfo\<rparr>)"

definition sample_safeInfo :: SafeInfo where
  "sample_safeInfo =
     \<lparr>address = Some \<lparr>value' = ''0xcA11bde05977b3631167028862bE2a173976CA11'', name = None, logoUri = None\<rparr>,
      chainId = ''100'', nonce = 42, threshold = 2,
      owners = Some [\<lparr>value' = ''0x000000000000000000000000000000000000dEaD'', name = None, logoUri = None\<rparr>],
      implementation = \<lparr>value' = ''0x0000000000000000000000000000000000000001'', name = None, logoUri = None\<rparr>,
      implementationVersionState = UP_TO_DATE, modules = None, fallbackHandler = None,
      guard = None, version = ''1.3.0''\<rparr>"

definition network_safeInfo :: "SafeInfo network" where
  "network_safeInfo = (\<lambda>url. Some \<lparr>status = 200, json = Some sample_safeInfo\<rparr>)"

definition network_down :: "SafeInfo network" where
  "network_down = (\<lambda>url. None)"

definition tutorial_store :: "string store" where
  "tutorial_store = (\<lambda>r. [\<lparr>signer = ''0x000000000000000000000000000000000000dEaD'',
                            signature = ''0x'' @ replicate 130 (CHR ''1'')\<rparr>])"

definition tutorial_network :: "unit TutorialTxInfo network" where
  "tutorial_network =
     (\<lambda>url. Some \<lparr>status = 200,
                   json = Some \<lparr>confirmationsSubmitted = 1, confirmationsRequired' = 2,
                                signatures' = 0, transactionData = ()\<rparr>\<rparr>)"

definition tutorial_execute :: "string \<Rightarrow> string \<Rightarrow> unit \<times> string \<Rightarrow> string \<Rightarrow> error + unit" where
  "tutorial_execute chainId' safeAddress params account = Inr ()"

definition sample_digest :: "byte list \<Rightarrow> Hex" where
  "sample_digest bs = take 32 (bs @ replicate 32 0)"

definition sample_safeAddress :: Hex where
  "sample_safeAddress = replicate 18 0 @ [0x5A, 0xFE]"

definition sample_tx :: SafeTransactionData where
  "sample_tx =
     \<lparr>to = replicate 18 0 @ [0xDE, 0xAD], tx_value = 1, data = [], operation = 0,
      safeTxGas = 0, baseGas = 0, gasPrice = 0, gasToken = replicate 20 0,
      refundReceiver = replicate 20 0, tx_nonce = 0\<rparr>"

section \<open>The comparator and the sort\<close>

text \<open>
  \<open>codeUnitCompare\<close> decides the lexicographic order of the code units: the order \<open><\<close> of
  strings (lists ordered lexicographically, characters by their code).
\<close>

lemma codeUnitCompare_le_iff: "codeUnitCompare a b \<le> 0 \<longleftrightarrow> a \<le> b"
  by (induction a b rule: codeUnitCompare.induct) (auto simp: less_char_def)

lemma codeUnitCompare_eq_iff: "codeUnitCompare a b = 0 \<longleftrightarrow> a = b"
  by (induction a b rule: codeUnitCompare.induct) (auto simp: less_char_def)

lemma codeUnitCompare_less_iff: "codeUnitCompare a b < 0 \<longleftrightarrow> a < b"
  by (induction a b rule: codeUnitCompare.induct) (auto simp: less_char_def)

lemma codeUnitCompare_sgn: "sgn (codeUnitCompare a b) = codeUnitCompare a b"
  by (induction a b rule: codeUnitCompare.induct) auto

lemma addressCollation_codeUnitCompare: "addressCollation codeUnitCompare"
  by (simp add: addressCollation_def codeUnitCompare_sgn)

lemma compareSigners_le_iff:
  "compareSigners codeUnitCompare a b \<le> 0 \<longleftrightarrow> signerKey a \<le> signerKey b"
  by (simp add: compareSigners_def signerKey_def codeUnitCompare_le_iff)

text \<open>
  Under the assumption on the collation, the comparator of two confirmations signed by
  address strings is non-positive exactly when the lower-cased addresses are in order.
\<close>

lemma compareSigners_address_le_iff:
  assumes "addressCollation localeCompare"
    and "test_safeAddress (value' (signer a))"
    and "test_safeAddress (value' (signer b))"
  shows "compareSigners localeCompare a b \<le> 0 \<longleftrightarrow> signerKey a \<le> signerKey b"
proof -
  have "sgn (localeCompare (signerKey a) (signerKey b)) = codeUnitCompare (signerKey a) (signerKey b)"
    using assms by (simp add: addressCollation_def signerKey_def)
  then have "localeCompare (signerKey a) (signerKey b) \<le> 0
               \<longleftrightarrow> codeUnitCompare (signerKey a) (signerKey b) \<le> 0"
    using sgn_greater [of "localeCompare (signerKey a) (signerKey b)"]
    by (simp add: not_less [symmetric])
  then show ?thesis
    by (simp add: compareSigners_def signerKey_def codeUnitCompare_le_iff)
qed

lemma mset_insert_by: "mset (insert_by cmp x ys) = add_mset x (mset ys)"
  by (induction ys) auto

lemma mset_array_sort: "mset (array_sort cmp xs) = mset xs"
  by (induction xs) (auto simp: mset_insert_by)

lemma set_insert_by: "set (insert_by cmp x ys) = insert x (set ys)"
  by (induction ys) auto

lemma length_array_sort: "length (array_sort cmp xs) = length xs"
  using mset_array_sort [of cmp xs] by (metis size_mset)

lemma set_array_sort: "set (array_sort cmp xs) = set xs"
  using mset_array_sort [of cmp xs] by (metis set_mset_mset)

lemma sorted_insert_by:
  fixes key :: "'a \<Rightarrow> 'k::linorder"
  assumes "\<And>a b. cmp a b \<le> 0 \<longleftrightarrow> key a \<le> key b"
  shows "sorted (map key ys) \<Longrightarrow> sorted (map key (insert_by cmp x ys))"
  using assms by (induction ys) (auto simp: set_insert_by)

lemma sorted_array_sort:
  fixes key :: "'a \<Rightarrow> 'k::linorder"
  assumes "\<And>a b. cmp a b \<le> 0 \<longleftrightarrow> key a \<le> key b"
  shows "sorted (map key (array_sort cmp xs))"
  using assms by (induction xs) (auto intro: sorted_insert_by)

lemma distinct_keys_array_sort:
  "distinct (map key xs) \<Longrightarrow> distinct (map key (array_sort cmp xs))"
proof -
  assume d: "distinct (map key xs)"
  have "mset (map key (array_sort cmp xs)) = mset (map key xs)"
    by (simp add: mset_array_sort)
  then show ?thesis using d by (metis mset_eq_imp_distinct_iff)
qed

text \<open>
  The sort reads its comparator on the elements of the array only, and only the sign of
  its results.
\<close>

lemma insert_by_cong:
  "\<forall>y \<in> set ys. (cmp x y \<le> 0) = (cmp' x y \<le> 0) \<Longrightarrow> insert_by cmp x ys = insert_by cmp' x ys"
  by (induction ys) auto

lemma array_sort_cong:
  "\<forall>a \<in> set xs. \<forall>b \<in> set xs. (cmp a b \<le> 0) = (cmp' a b \<le> 0) \<Longrightarrow>
   array_sort cmp xs = array_sort cmp' xs"
proof (induction xs)
  case Nil
  show ?case by simp
next
  case (Cons x xs)
  then have "array_sort cmp xs = array_sort cmp' xs" by simp
  moreover have "insert_by cmp x (array_sort cmp' xs) = insert_by cmp' x (array_sort cmp' xs)"
    using Cons.prems by (intro insert_by_cong) (simp add: set_array_sort)
  ultimately show ?case by simp
qed

lemma array_sort_addressSigners:
  assumes "addressCollation localeCompare" and "addressSigners cs"
  shows "array_sort (compareSigners localeCompare) cs = array_sort (compareSigners codeUnitCompare) cs"
proof (rule array_sort_cong, intro ballI)
  fix a b
  assume "a \<in> set cs" "b \<in> set cs"
  then have "test_safeAddress (value' (signer a))" "test_safeAddress (value' (signer b))"
    using assms(2) by (simp_all add: addressSigners_def list_all_iff)
  then show "(compareSigners localeCompare a b \<le> 0) = (compareSigners codeUnitCompare a b \<le> 0)"
    using assms(1) by (simp add: compareSigners_address_le_iff compareSigners_le_iff)
qed

text \<open>
  Two arrays with the same elements and pairwise different keys sort to the same array: a
  list sorted by distinct keys is determined by its elements.
\<close>

lemma array_sort_perm_unique:
  fixes key :: "'a \<Rightarrow> 'k::linorder"
  assumes cmp: "\<And>a b. cmp a b \<le> 0 \<longleftrightarrow> key a \<le> key b"
    and m: "mset xs = mset ys" and d: "distinct (map key xs)"
  shows "array_sort cmp xs = array_sort cmp ys"
proof -
  let ?sx = "array_sort cmp xs" and ?sy = "array_sort cmp ys"
  have dy0: "distinct (map key ys)"
    using d m by (metis mset_eq_imp_distinct_iff mset_map)
  have dx: "distinct (map key ?sx)" by (rule distinct_keys_array_sort [OF d])
  have dy: "distinct (map key ?sy)" by (rule distinct_keys_array_sort [OF dy0])
  have sets: "set ?sx = set xs" "set ?sy = set xs"
    using m by (simp_all add: set_array_sort) (metis set_mset_mset)
  then have "set (map key ?sx) = set (map key ?sy)" by simp
  then have keys: "map key ?sx = map key ?sy"
    using sorted_distinct_set_unique [OF sorted_array_sort [OF cmp] dx sorted_array_sort [OF cmp] dy]
    by blast
  have "inj_on key (set xs)" using d by (simp add: distinct_map)
  then have "inj_on key (set ?sx \<union> set ?sy)" using sets by simp
  then show ?thesis using keys by (simp add: inj_on_map_eq_map)
qed

section \<open>combineSignatures: order, permutations, length, mutation\<close>

lemma combineSignatures_fst:
  "fst (combineSignatures localeCompare r h)
     = ''0x'' @ concat (map (\<lambda>c. drop 2 (signature c))
                         (array_sort (compareSigners localeCompare) (h r)))"
  by (simp add: combineSignatures_def join_empty_def slice2_def)

lemma combineSignatures_snd:
  "snd (combineSignatures localeCompare r h)
     = h(r := array_sort (compareSigners localeCompare) (h r))"
  by (simp add: combineSignatures_def)

lemma sample_keys:
  "signerKey conf_cA11 = ''0xca11bde05977b3631167028862be2a173976ca11''"
  "signerKey conf_dEaD = ''0x000000000000000000000000000000000000dead''"
  "signerKey conf_cA11_again = ''0xca11bde05977b3631167028862be2a173976ca11''"
  by code_simp+

lemma sample_addressSigners:
  "addressSigners (store_ca_de 0)"
  "addressSigners (store_de_ca 0)"
  by (simp_all add: addressSigners_def store_ca_de_def store_de_ca_def conf_cA11_def
      conf_dEaD_def isHexDigit_def)

text \<open>
  C3. Where the signers are address strings (\<open>0x\<close> and forty hex digits), pairwise distinct
  as addresses (that is after lower-casing), and the collation of the runtime orders
  lower-cased address strings as their code units do, the bundle returned by
  \<open>combineSignatures\<close> does not depend on the order of the input array: two arrays holding
  the same confirmations in any two orders give the same string.
\<close>

theorem combineSignatures_permutation_invariant:
  assumes "addressCollation localeCompare"
    and "addressSigners (ha ra)"
    and "mset (ha ra) = mset (hb rb)"
    and "distinct (map signerKey (ha ra))"
  shows "fst (combineSignatures localeCompare ra ha) = fst (combineSignatures localeCompare rb hb)"
proof -
  have "set (hb rb) = set (ha ra)" using assms(3) by (metis set_mset_mset)
  then have b: "addressSigners (hb rb)"
    using assms(2) by (simp add: addressSigners_def list_all_iff)
  have "array_sort (compareSigners codeUnitCompare) (ha ra)
          = array_sort (compareSigners codeUnitCompare) (hb rb)"
    using compareSigners_le_iff assms(3,4) by (rule array_sort_perm_unique)
  then have "array_sort (compareSigners localeCompare) (ha ra)
               = array_sort (compareSigners localeCompare) (hb rb)"
    by (simp add: array_sort_addressSigners [OF assms(1,2)] array_sort_addressSigners [OF assms(1) b])
  then show ?thesis by (simp add: combineSignatures_fst)
qed

theorem combineSignatures_permutation_invariant_witness:
  "addressCollation codeUnitCompare \<and>
   addressSigners (store_ca_de 0) \<and>
   mset (store_ca_de 0) = mset (store_de_ca 0) \<and>
   distinct (map signerKey (store_ca_de 0)) \<and>
   store_ca_de 0 \<noteq> store_de_ca 0 \<and>
   fst (combineSignatures codeUnitCompare 0 store_ca_de)
     = fst (combineSignatures codeUnitCompare 0 store_de_ca)"
proof -
  have m: "mset (store_ca_de 0) = mset (store_de_ca 0)"
    by (simp add: store_ca_de_def store_de_ca_def)
  have d: "distinct (map signerKey (store_ca_de 0))"
    by (simp add: store_ca_de_def sample_keys)
  have n: "store_ca_de 0 \<noteq> store_de_ca 0"
    by (simp add: store_ca_de_def store_de_ca_def conf_cA11_def conf_dEaD_def)
  show ?thesis
    using m d n addressCollation_codeUnitCompare sample_addressSigners(1)
      combineSignatures_permutation_invariant
        [where localeCompare = codeUnitCompare and ha = store_ca_de and ra = 0
           and hb = store_de_ca and rb = 0,
         OF addressCollation_codeUnitCompare sample_addressSigners(1) m d]
    by simp
qed



text \<open>
  C7, as stated (\<open>1 + 130 * N\<close> characters), fails: one 65-byte signature gives a bundle of
  132 characters, the two characters of the prefix \<open>0x\<close> and 130 hex digits. (On an array
  of one element the sort never calls its comparator; the collation of the sample is of no
  account.)
\<close>

theorem combineSignatures_length_counterexample:
  "list_all (\<lambda>c. signature65 (signature c)) (store_one 0) \<and>
   length (fst (combineSignatures codeUnitCompare 0 store_one)) \<noteq> 1 + 130 * length (store_one 0)"
  by (simp add: store_one_def conf_dEaD_def signature65_def isHexDigit_def list_all_iff
      combineSignatures_def join_empty_def slice2_def)

lemma payload_concat:
  assumes "list_all (\<lambda>c. signature65 (signature c)) cs"
  shows "length (concat (map (\<lambda>c. drop 2 (signature c)) cs)) = 130 * length cs \<and>
         list_all isHexDigit (concat (map (\<lambda>c. drop 2 (signature c)) cs))"
  using assms by (induction cs) (auto simp: signature65_def)

text \<open>
  C7, amended. For an array of \<open>N\<close> valid 65-byte signatures, the bundle has exactly
  \<open>2 + 130 * N\<close> characters: the prefix \<open>0x\<close> and then \<open>130 * N\<close> hex digits (\<open>65 * N\<close>
  bytes), with nothing between the signatures. This holds whatever the collation.
\<close>

theorem combineSignatures_length:
  assumes "list_all (\<lambda>c. signature65 (signature c)) (h r)"
  shows "length (fst (combineSignatures localeCompare r h)) = 2 + 130 * length (h r) \<and>
         take 2 (fst (combineSignatures localeCompare r h)) = ''0x'' \<and>
         length (drop 2 (fst (combineSignatures localeCompare r h))) = 2 * (65 * length (h r)) \<and>
         list_all isHexDigit (drop 2 (fst (combineSignatures localeCompare r h)))"
proof -
  let ?ss = "array_sort (compareSigners localeCompare) (h r)"
  have "list_all (\<lambda>c. signature65 (signature c)) ?ss"
    using assms by (simp add: list_all_iff set_array_sort)
  then have "length (concat (map (\<lambda>c. drop 2 (signature c)) ?ss)) = 130 * length (h r)"
    and "list_all isHexDigit (concat (map (\<lambda>c. drop 2 (signature c)) ?ss))"
    using payload_concat [of ?ss] by (simp_all add: length_array_sort)
  then show ?thesis by (simp add: combineSignatures_fst)
qed

theorem combineSignatures_length_witness:
  "list_all (\<lambda>c. signature65 (signature c)) (store_ca_de 0) \<and>
   length (store_ca_de 0) = 2 \<and>
   length (fst (combineSignatures codeUnitCompare 0 store_ca_de)) = 262"
proof -
  have v: "list_all (\<lambda>c. signature65 (signature c)) (store_ca_de 0)"
    by (simp add: store_ca_de_def conf_cA11_def conf_dEaD_def signature65_def isHexDigit_def
        list_all_iff)
  have n: "length (store_ca_de 0) = 2" by (simp add: store_ca_de_def)
  show ?thesis
    using v n
      combineSignatures_length [where localeCompare = codeUnitCompare and h = store_ca_de and r = 0, OF v]
    by simp
qed

text \<open>
  C9. \<open>combineSignatures\<close> sorts its argument in place: after the call the caller's array
  (the reference \<open>r\<close> in the store) holds a rearrangement \<open>ss\<close> of the same confirmations,
  it is this rearranged array whose payloads were concatenated, and no other array of the
  store has changed; this whatever the collation. Where the signers are address strings and
  the collation orders lower-cased address strings as their code units do, the rearranged
  array is in ascending order of the lower-cased signer address.
\<close>

theorem combineSignatures_sorts_argument_in_place:
  "\<exists>ss. snd (combineSignatures localeCompare r h) = h(r := ss) \<and>
        mset ss = mset (h r) \<and>
        fst (combineSignatures localeCompare r h)
          = ''0x'' @ concat (map (\<lambda>c. drop 2 (signature c)) ss) \<and>
        (addressCollation localeCompare \<and> addressSigners (h r) \<longrightarrow> sorted (map signerKey ss))"
proof -
  let ?ss = "array_sort (compareSigners localeCompare) (h r)"
  have "addressCollation localeCompare \<and> addressSigners (h r) \<longrightarrow> sorted (map signerKey ?ss)"
  proof
    assume "addressCollation localeCompare \<and> addressSigners (h r)"
    then have "?ss = array_sort (compareSigners codeUnitCompare) (h r)"
      by (simp add: array_sort_addressSigners)
    moreover have "sorted (map signerKey (array_sort (compareSigners codeUnitCompare) (h r)))"
      using compareSigners_le_iff by (rule sorted_array_sort)
    ultimately show "sorted (map signerKey ?ss)" by simp
  qed
  then show ?thesis
    using combineSignatures_snd [of localeCompare r h]
      mset_array_sort [of "compareSigners localeCompare" "h r"]
      combineSignatures_fst [of localeCompare r h] by blast
qed

text \<open>
  On the array \<open>[cA11, dEaD]\<close> the call leaves the caller with a different array: the
  order it was given is not the ascending one.
\<close>

theorem combineSignatures_sorts_argument_in_place_witness:
  "addressCollation codeUnitCompare \<and> addressSigners (store_ca_de 0) \<and>
   snd (combineSignatures codeUnitCompare 0 store_ca_de) 0 \<noteq> store_ca_de 0"
proof -
  have "snd (combineSignatures codeUnitCompare 0 store_ca_de) 0 \<noteq> store_ca_de 0"
  proof
    assume same: "snd (combineSignatures codeUnitCompare 0 store_ca_de) 0 = store_ca_de 0"
    obtain ss where upd: "snd (combineSignatures codeUnitCompare 0 store_ca_de) = store_ca_de(0 := ss)"
      and srt: "addressCollation codeUnitCompare \<and> addressSigners (store_ca_de 0)
                  \<longrightarrow> sorted (map signerKey ss)"
      using combineSignatures_sorts_argument_in_place [of codeUnitCompare 0 store_ca_de] by blast
    from upd same have "ss = store_ca_de 0" by simp
    with srt addressCollation_codeUnitCompare sample_addressSigners(1)
    have "signerKey conf_cA11 \<le> signerKey conf_dEaD"
      by (simp add: store_ca_de_def)
    then show False by (simp add: sample_keys less_eq_char_def)
  qed
  then show ?thesis
    using addressCollation_codeUnitCompare sample_addressSigners(1) by simp
qed

section \<open>The quorum\<close>

text \<open>
  C5, as stated, fails: \<open>combineSignatures\<close> takes no required count and raises nothing.
  Given no confirmation at all, fewer than any quorum, it still returns a bundle, the bare
  prefix. (On the empty array the sort never calls its comparator; the collation of the
  sample is of no account.)
\<close>

theorem combineSignatures_below_quorum_counterexample:
  "length (store_empty 0) = 0 \<and> fst (combineSignatures codeUnitCompare 0 store_empty) = ''0x''"
  by (simp add: store_empty_def combineSignatures_def join_empty_def)

text \<open>
  C5, amended. The refusal below quorum is the caller's: the tutorial's
  \<open>completeExecutionFlow\<close> fails with the error \<open>Not enough signatures to execute transaction\<close>
  when the service reports fewer confirmations submitted than required; it then logs the
  error, leaves the store as it was and executes nothing. \<open>combineSignatures\<close> itself returns
  a bundle of all the confirmations it is given, however few. Both hold whatever the
  collation.
\<close>

theorem quorum_checked_by_completeExecutionFlow:
  assumes "fetch (''https://safe-client.safe.global/v1/chains/'' @ chainId' @ ''/transactions/'' @ safeTxHash)
             = Some response"
    and "ok response"
    and "json response = Some txInfo"
    and "confirmationsSubmitted txInfo < confirmationsRequired' txInfo"
  shows "completeExecutionFlow localeCompare fetch executeTransaction h chainId' safeAddress safeTxHash
           executorAddress
           = (Inl (Error ''Not enough signatures to execute transaction''),
              [Fetch (''https://safe-client.safe.global/v1/chains/'' @ chainId' @ ''/transactions/'' @ safeTxHash),
               ConsoleError ''Error executing transaction:''
                 (Error ''Not enough signatures to execute transaction'')],
              h) \<and>
         (\<exists>ss. mset ss = mset (hs r) \<and>
               fst (combineSignatures localeCompare r hs)
                 = ''0x'' @ concat (map (\<lambda>c. drop 2 (signature c)) ss))"
proof -
  have "\<exists>ss. mset ss = mset (hs r) \<and>
             fst (combineSignatures localeCompare r hs)
               = ''0x'' @ concat (map (\<lambda>c. drop 2 (signature c)) ss)"
    using mset_array_sort [of "compareSigners localeCompare" "hs r"]
      combineSignatures_fst [of localeCompare r hs] by blast
  then show ?thesis
    using assms by (simp add: completeExecutionFlow_def Let_def)
qed

theorem quorum_checked_by_completeExecutionFlow_witness:
  "completeExecutionFlow codeUnitCompare tutorial_network tutorial_execute tutorial_store ''100''
       ''0xcA11bde05977b3631167028862bE2a173976CA11'' ''0xabc''
       ''0x000000000000000000000000000000000000dEaD''
     = (Inl (Error ''Not enough signatures to execute transaction''),
        [Fetch ''https://safe-client.safe.global/v1/chains/100/transactions/0xabc'',
         ConsoleError ''Error executing transaction:''
           (Error ''Not enough signatures to execute transaction'')],
        tutorial_store)"
proof -
  let ?response = "\<lparr>status = 200,
                     json = Some \<lparr>confirmationsSubmitted = 1, confirmationsRequired' = 2,
                                  signatures' = 0, transactionData = ()\<rparr>\<rparr>"
  have f: "tutorial_network (''https://safe-client.safe.global/v1/chains/'' @ ''100'' @ ''/transactions/'' @ ''0xabc'')
             = Some ?response"
    by (simp add: tutorial_network_def)
  have o: "ok ?response" by (simp add: ok_def)
  show ?thesis
    using quorum_checked_by_completeExecutionFlow
      [where localeCompare = codeUnitCompare and fetch = tutorial_network
         and chainId' = "''100''" and safeTxHash = "''0xabc''"
         and executeTransaction = tutorial_execute and h = tutorial_store
         and safeAddress = "''0xcA11bde05977b3631167028862bE2a173976CA11''"
         and executorAddress = "''0x000000000000000000000000000000000000dEaD''", OF f o]
    by simp
qed

text \<open>
  C8, as stated (the count of \<^emph>\<open>distinct\<close> signers), fails: \<open>verifySignatures\<close> compares the
  length of the \<open>confirmations\<close> array. With two confirmations of one signer and two
  required, it answers true although only one signer has signed.
\<close>

theorem verifySignatures_counterexample:
  "fst (verifySignatures sample_client network_txInfo store_twice ''100'' ''0xabc'') = Inr True \<and>
   map signerKey (store_twice 0)
     = [''0xca11bde05977b3631167028862be2a173976ca11'', ''0xca11bde05977b3631167028862be2a173976ca11''] \<and>
   int (card (set (map signerKey (store_twice 0))))
     < confirmationsRequired (detailedExecutionInfo sample_txInfo)"
  by (simp add: verifySignatures_def catch_log_def network_txInfo_def ok_def sample_txInfo_def
      store_twice_def sample_keys)

text \<open>
  C8, amended. When the service answers with a transaction record, \<open>verifySignatures\<close>
  returns true iff the number of entries of its \<open>confirmations\<close> array is at least
  \<open>confirmationsRequired\<close>: false at one entry less than required, true at exactly the
  required number. Entries are not deduplicated; where the signers of the entries are
  pairwise distinct the count is the number of distinct signers (\<open>signerOf\<close> is any reading
  of an entry's signer: the \<open>signer\<close> field, its address string, the lower-cased address).
\<close>

theorem verifySignatures_counts_confirmations:
  assumes "fetch (baseUrl this @ ''/v1/chains/'' @ chainId' @ ''/transactions/'' @ safeTxHash)
             = Some response"
    and "ok response"
    and "json response = Some txInfo"
    and "h (confirmations (detailedExecutionInfo txInfo)) = confs"
    and "confirmationsRequired (detailedExecutionInfo txInfo) = required"
  shows "fst (verifySignatures this fetch h chainId' safeTxHash) = Inr (required \<le> int (length confs)) \<and>
         (int (length confs) = required - 1 \<longrightarrow>
            fst (verifySignatures this fetch h chainId' safeTxHash) = Inr False) \<and>
         (int (length confs) = required \<longrightarrow>
            fst (verifySignatures this fetch h chainId' safeTxHash) = Inr True) \<and>
         (distinct (map signerOf confs) \<longrightarrow>
            fst (verifySignatures this fetch h chainId' safeTxHash)
              = Inr (required \<le> int (card (set (map signerOf confs)))))"
proof -
  have r: "fst (verifySignatures this fetch h chainId' safeTxHash) = Inr (required \<le> int (length confs))"
    using assms by (simp add: verifySignatures_def catch_log_def Let_def)
  have "distinct (map signerOf confs) \<longrightarrow> card (set (map signerOf confs)) = length confs"
    using distinct_card [of "map signerOf confs"] by simp
  with r show ?thesis by auto
qed

theorem verifySignatures_counts_confirmations_witness:
  "fst (verifySignatures sample_client network_txInfo store_ca_de ''100'' ''0xabc'') = Inr True \<and>
   fst (verifySignatures sample_client network_txInfo store_one ''100'' ''0xabc'') = Inr False"
proof -
  let ?response = "\<lparr>status = 200, json = Some sample_txInfo\<rparr>"
  have f: "network_txInfo (baseUrl sample_client @ ''/v1/chains/'' @ ''100'' @ ''/transactions/'' @ ''0xabc'')
             = Some ?response"
    by (simp add: network_txInfo_def)
  have o: "ok ?response" by (simp add: ok_def)
  have j: "json ?response = Some sample_txInfo" by simp
  have two: "store_ca_de (confirmations (detailedExecutionInfo sample_txInfo)) = [conf_cA11, conf_dEaD]"
    by (simp add: store_ca_de_def)
  have one: "store_one (confirmations (detailedExecutionInfo sample_txInfo)) = [conf_dEaD]"
    by (simp add: store_one_def)
  have q: "confirmationsRequired (detailedExecutionInfo sample_txInfo) = 2"
    by (simp add: sample_txInfo_def)
  show ?thesis
    using
      verifySignatures_counts_confirmations
        [where fetch = network_txInfo and this = sample_client and chainId' = "''100''"
           and safeTxHash = "''0xabc''" and h = store_ca_de and signerOf = signerKey,
           OF f o j two q]
      verifySignatures_counts_confirmations
        [where fetch = network_txInfo and this = sample_client and chainId' = "''100''"
           and safeTxHash = "''0xabc''" and h = store_one and signerOf = signerKey,
           OF f o j one q]
    by simp
qed

section \<open>getSafeInfo: validation comes first\<close>

text \<open>
  The test of the model accepts exactly the strings of the regular expression: \<open>0x\<close> and
  forty characters of the class \<open>[a-fA-F0-9]\<close>.
\<close>

lemma test_safeAddress_iff:
  "test_safeAddress s \<longleftrightarrow> (\<exists>hs. s = ''0x'' @ hs \<and> length hs = 40 \<and> (\<forall>c \<in> set hs. isHexDigit c))"
proof (cases s)
  case Nil
  then show ?thesis by simp
next
  case (Cons c0 s')
  then show ?thesis by (cases s') (auto simp: list_all_iff)
qed

text \<open>
  C10. With an empty chain id, an empty Safe address or a Safe address that does not match
  \<open>^0x[a-fA-F0-9]{40}$\<close>, \<open>getSafeInfo\<close> throws an error and issues no request: the only
  event of the call is the \<open>console.error\<close> line of its \<open>catch\<close> block.
\<close>

theorem getSafeInfo_validates_before_fetch:
  assumes "chainId' = [] \<or> safeAddress = [] \<or> \<not> test_safeAddress safeAddress"
  shows "\<exists>msg. getSafeInfo this fetch chainId' safeAddress
                 = (Inl (Error msg), [ConsoleError ''Error in getSafeInfo:'' (Error msg)])"
  using assms by (auto simp: getSafeInfo_def getSafeInfo_body_def catch_log_def)

theorem getSafeInfo_validates_before_fetch_witness:
  "\<not> test_safeAddress ''0xcA11bde05977b3631167028862bE2a173976CA1'' \<and>
   (\<exists>msg. getSafeInfo sample_client network_down ''100'' ''0xcA11bde05977b3631167028862bE2a173976CA1''
            = (Inl (Error msg), [ConsoleError ''Error in getSafeInfo:'' (Error msg)]))"
proof -
  have n: "\<not> test_safeAddress ''0xcA11bde05977b3631167028862bE2a173976CA1''" by simp
  then have "''100'' = [] \<or> ''0xcA11bde05977b3631167028862bE2a173976CA1'' = [] \<or>
             \<not> test_safeAddress ''0xcA11bde05977b3631167028862bE2a173976CA1''"
    by blast
  from n getSafeInfo_validates_before_fetch [OF this, of sample_client network_down]
  show ?thesis by blast
qed

section \<open>Submitting a signature twice\<close>

text \<open>
  C6, as stated, fails: the client records no signatures and knows no duplicate-signer
  error. Against a service that accepts whatever is posted, the second submission of one
  signature succeeds like the first, and the service then holds the signature twice.
\<close>

theorem signTransaction_duplicate_counterexample:
  "signTransaction sample_client recording_service [] ''100'' ''0xabc'' sample_signature
     = ((Inr 1, [Post ''https://safe-client.safe.global/v1/chains/100/transactions/0xabc/confirmations''
                   sample_signature]),
        [sample_signature]) \<and>
   signTransaction sample_client recording_service [sample_signature] ''100'' ''0xabc'' sample_signature
     = ((Inr 2, [Post ''https://safe-client.safe.global/v1/chains/100/transactions/0xabc/confirmations''
                   sample_signature]),
        [sample_signature, sample_signature])"
  by (simp add: signTransaction_def catch_log_def recording_service_def sample_client_def ok_def)

text \<open>
  C6, amended. Adding a confirmation (\<open>signTransaction\<close>) posts the signature to the service
  and leaves the verdict to it: whatever the service holds already, the call returns the
  service's answer when the status is ok, and fails with the HTTP error of the status (logged
  by the \<open>catch\<close> block) when it is not. The client keeps no signature set of its own; what
  is recorded after the call is the state the service moved to.
\<close>

theorem signTransaction_defers_to_service:
  assumes "post st (baseUrl this @ ''/v1/chains/'' @ chainId' @ ''/transactions/'' @ safeTxHash @
                    ''/confirmations'') signature'
             = (Some response, st')"
  shows "(ok response \<and> json response = Some body \<longrightarrow>
            signTransaction this post st chainId' safeTxHash signature'
              = ((Inr body,
                  [Post (baseUrl this @ ''/v1/chains/'' @ chainId' @ ''/transactions/'' @ safeTxHash @
                         ''/confirmations'') signature']),
                 st')) \<and>
         (\<not> ok response \<longrightarrow>
            signTransaction this post st chainId' safeTxHash signature'
              = ((Inl (HttpError (status response)),
                  [Post (baseUrl this @ ''/v1/chains/'' @ chainId' @ ''/transactions/'' @ safeTxHash @
                         ''/confirmations'') signature',
                   ConsoleError ''Error signing transaction:'' (HttpError (status response))]),
                 st'))"
  using assms by (simp add: signTransaction_def catch_log_def Let_def)

theorem signTransaction_defers_to_service_witness:
  "signTransaction sample_client strict_service [] ''100'' ''0xabc'' sample_signature
     = ((Inr 1,
         [Post (baseUrl sample_client @ ''/v1/chains/'' @ ''100'' @ ''/transactions/'' @ ''0xabc'' @
                ''/confirmations'') sample_signature]),
        [sample_signature]) \<and>
   signTransaction sample_client strict_service [sample_signature] ''100'' ''0xabc'' sample_signature
     = ((Inl (HttpError 400),
         [Post (baseUrl sample_client @ ''/v1/chains/'' @ ''100'' @ ''/transactions/'' @ ''0xabc'' @
                ''/confirmations'') sample_signature,
          ConsoleError ''Error signing transaction:'' (HttpError 400)]),
        [sample_signature])"
proof -
  let ?url = "baseUrl sample_client @ ''/v1/chains/'' @ ''100'' @ ''/transactions/'' @ ''0xabc'' @
              ''/confirmations''"
  let ?accepted = "\<lparr>status = 200, json = Some (1::nat)\<rparr>"
  let ?refused = "\<lparr>status = 400, json = None :: nat option\<rparr>"
  have first: "strict_service [] ?url sample_signature = (Some ?accepted, [sample_signature])"
    by (simp add: strict_service_def)
  have second: "strict_service [sample_signature] ?url sample_signature
                  = (Some ?refused, [sample_signature])"
    by (simp add: strict_service_def)
  have a: "ok ?accepted" "json ?accepted = Some 1" by (simp_all add: ok_def)
  have n: "\<not> ok ?refused" by (simp add: ok_def)
  show ?thesis
    using
      signTransaction_defers_to_service
        [where post = strict_service and st = "[]" and this = sample_client
           and chainId' = "''100''" and safeTxHash = "''0xabc''" and body = 1, OF first]
      signTransaction_defers_to_service
        [where post = strict_service and st = "[sample_signature]" and this = sample_client
           and chainId' = "''100''" and safeTxHash = "''0xabc''", OF second]
      a n
    by simp
qed

section \<open>The Safe transaction hash: the method computes the specified digest\<close>

text \<open>
  The integer slot is big-endian: it has the length asked for, and reading it back, most
  significant byte first, returns the number (modulo the capacity of the slot).
\<close>

lemma length_numberToBytes: "length (numberToBytes n v) = n"
  by (induction n arbitrary: v) auto

lemma numberToBytes_zero: "numberToBytes n 0 = replicate n 0"
  by (induction n) (auto simp: replicate_append_same)

lemma be_value_snoc: "be_value (bs @ [b]) = 256 * be_value bs + unat b"
  by (simp add: be_value_def)

lemma be_value_numberToBytes: "be_value (numberToBytes n v) = v mod 256 ^ n"
proof (induction n arbitrary: v)
  case 0
  show ?case by (simp add: be_value_def)
next
  case (Suc n)
  have "unat (of_nat (v mod 256) :: byte) = v mod 256"
    by (simp add: unat_of_nat)
  then have "be_value (numberToBytes (Suc n) v) = 256 * (v div 256 mod 256 ^ n) + v mod 256"
    by (simp add: be_value_snoc Suc.IH)
  also have "\<dots> = v mod 256 ^ Suc n"
    by (simp add: mod_mult2_eq)
  finally show ?case .
qed

lemma be_value_uint256_slot:
  assumes "uint256 v"
  shows "length (spec_uint256_slot v) = 32 \<and> int (be_value (spec_uint256_slot v)) = v"
proof -
  have "nat v < 256 ^ 32" using assms by (simp add: uint256_def nat_less_iff)
  then have "be_value (numberToBytes 32 (nat v)) = nat v"
    by (simp add: be_value_numberToBytes)
  then show ?thesis
    using assms by (simp add: spec_uint256_slot_def length_numberToBytes uint256_def)
qed

lemma numberToBytes_uint8:
  assumes "0 \<le> v" "v < 256"
  shows "numberToBytes 32 (nat v) = replicate 31 0 @ [of_int v]"
proof -
  have "nat v div 256 = 0" "nat v mod 256 = nat v" using assms by auto
  then show ?thesis
    using numberToBytes.simps(2) [of 31 "nat v"] assms by (simp add: numberToBytes_zero)
qed

text \<open>Each parameter the client passes encodes to the slot the specification words.\<close>

lemma encode_uint256: "uint256 v \<Longrightarrow> encodeParam (T_uint 256) (V_int v) = Inr (spec_uint256_slot v)"
  by (simp add: uint256_def spec_uint256_slot_def)

lemma encode_uint8:
  "0 \<le> v \<Longrightarrow> v < 256 \<Longrightarrow> encodeParam (T_uint 8) (V_int v) = Inr (spec_uint8_slot v)"
  by (simp add: spec_uint8_slot_def numberToBytes_uint8)

lemma encode_address: "length a = 20 \<Longrightarrow> encodeParam T_address (V_hex a) = Inr (spec_address_slot a)"
  by (simp add: spec_address_slot_def)

lemma encode_bytes32: "length b = 32 \<Longrightarrow> encodeParam (T_bytes 32) (V_hex b) = Inr b"
  by simp

lemma encode_domain:
  assumes "valid_SafeContext safeAddress chainId'"
  shows "encodeAbiParameters [T_bytes 32, T_uint 256, T_address]
           [V_hex DOMAIN_SEPARATOR_TYPEHASH, V_int chainId', V_hex safeAddress]
         = Inr (DOMAIN_SEPARATOR_TYPEHASH @ spec_uint256_slot chainId' @ spec_address_slot safeAddress)"
proof -
  have th: "length DOMAIN_SEPARATOR_TYPEHASH = 32" by (simp add: DOMAIN_SEPARATOR_TYPEHASH_def)
  show ?thesis
    using assms th unfolding valid_SafeContext_def encodeAbiParameters_def
    by (simp only: encodeParams.simps encode_uint256 encode_address encode_bytes32
        list.size sum.case append_Nil2 append_assoc) simp
qed

lemma encode_tx:
  assumes d: "digest32 keccak256" and t: "valid_SafeTransaction txData"
  shows "encodeAbiParameters
           [T_bytes 32, T_address, T_uint 256, T_bytes 32, T_uint 8, T_uint 256,
            T_uint 256, T_uint 256, T_address, T_address, T_uint 256]
           [V_hex SAFE_TX_TYPEHASH, V_hex (to txData), V_int (tx_value txData),
            V_hex (keccak256 (data txData)), V_int (operation txData),
            V_int (safeTxGas txData), V_int (baseGas txData), V_int (gasPrice txData),
            V_hex (gasToken txData), V_hex (refundReceiver txData),
            V_int (tx_nonce txData)]
         = Inr (SAFE_TX_TYPEHASH @ spec_address_slot (to txData) @
                spec_uint256_slot (tx_value txData) @ keccak256 (data txData) @
                spec_uint8_slot (operation txData) @ spec_uint256_slot (safeTxGas txData) @
                spec_uint256_slot (baseGas txData) @ spec_uint256_slot (gasPrice txData) @
                spec_address_slot (gasToken txData) @ spec_address_slot (refundReceiver txData) @
                spec_uint256_slot (tx_nonce txData))"
proof -
  have len: "length (keccak256 (data txData)) = 32" using d by (simp add: digest32_def)
  have th: "length SAFE_TX_TYPEHASH = 32" by (simp add: SAFE_TX_TYPEHASH_def)
  show ?thesis
    using t len th unfolding valid_SafeTransaction_def encodeAbiParameters_def
    by (simp only: encodeParams.simps encode_uint256 encode_uint8 encode_address encode_bytes32
        list.size sum.case append_Nil2 append_assoc) simp
qed

lemma calculateSafeTransactionHash_valid:
  assumes d: "digest32 keccak256"
    and c: "valid_SafeContext safeAddress chainId'"
    and t: "valid_SafeTransaction txData"
  shows "calculateSafeTransactionHash this keccak256 safeAddress chainId' txData
           = (Inr (keccak256 (spec_packed keccak256 safeAddress chainId' txData)), [])"
proof -
  have len: "\<And>bs. length (keccak256 bs) = 32" using d by (simp add: digest32_def)
  show ?thesis
    unfolding calculateSafeTransactionHash_def
    by (simp add: encode_domain [OF c] encode_tx [OF d t] len Let_def
        spec_packed_def spec_domainSeparator_def spec_structHash_def)
qed

lemma length_spec_slots:
  "length (spec_address_slot a) = 12 + length a"
  "length (spec_uint8_slot v) = 32"
  "length (spec_uint256_slot v) = 32"
  by (simp_all add: spec_address_slot_def spec_uint8_slot_def spec_uint256_slot_def
      length_numberToBytes)

lemma sample_digest32: "digest32 sample_digest"
  by (auto simp: digest32_def sample_digest_def)

lemma sample_inputs_valid:
  "digest32 sample_digest"
  "valid_SafeContext sample_safeAddress 100"
  "valid_SafeTransaction sample_tx"
  by (simp_all add: sample_digest32 valid_SafeContext_def sample_safeAddress_def
      valid_SafeTransaction_def sample_tx_def uint256_def)

text \<open>
  C1. For every SafeContext and every SafeTransaction, \<open>calculateSafeTransactionHash\<close>
  returns the digest of the packed bytes \<open>0x19\<close>, \<open>0x01\<close>, domain separator, struct hash,
  66 bytes in all. The domain separator is the digest of the three slots
  (DOMAIN_SEPARATOR_TYPEHASH, chainId as uint256, safeAddress left-padded); the struct hash
  is the digest of the eleven slots (SAFE_TX_TYPEHASH, to, value, digest of data, operation as
  uint8, safeTxGas, baseGas, gasPrice, gasToken, refundReceiver, nonce), 96 and 352 bytes.
\<close>

theorem calculateSafeTransactionHash_spec:
  assumes "digest32 keccak256"
    and "valid_SafeContext safeAddress chainId'"
    and "valid_SafeTransaction txData"
  shows "fst (calculateSafeTransactionHash this keccak256 safeAddress chainId' txData)
           = Inr (keccak256 ([0x19, 0x01] @ spec_domainSeparator keccak256 safeAddress chainId' @
                            spec_structHash keccak256 txData)) \<and>
         length ([0x19, 0x01] @ spec_domainSeparator keccak256 safeAddress chainId' @
                 spec_structHash keccak256 txData) = 66 \<and>
         spec_domainSeparator keccak256 safeAddress chainId'
           = keccak256 (DOMAIN_SEPARATOR_TYPEHASH @ spec_uint256_slot chainId' @
                        spec_address_slot safeAddress) \<and>
         length (DOMAIN_SEPARATOR_TYPEHASH @ spec_uint256_slot chainId' @
                 spec_address_slot safeAddress) = 96 \<and>
         spec_structHash keccak256 txData
           = keccak256 (SAFE_TX_TYPEHASH @ spec_address_slot (to txData) @
                        spec_uint256_slot (tx_value txData) @ keccak256 (data txData) @
                        spec_uint8_slot (operation txData) @ spec_uint256_slot (safeTxGas txData) @
                        spec_uint256_slot (baseGas txData) @ spec_uint256_slot (gasPrice txData) @
                        spec_address_slot (gasToken txData) @
                        spec_address_slot (refundReceiver txData) @
                        spec_uint256_slot (tx_nonce txData)) \<and>
         length (SAFE_TX_TYPEHASH @ spec_address_slot (to txData) @
                 spec_uint256_slot (tx_value txData) @ keccak256 (data txData) @
                 spec_uint8_slot (operation txData) @ spec_uint256_slot (safeTxGas txData) @
                 spec_uint256_slot (baseGas txData) @ spec_uint256_slot (gasPrice txData) @
                 spec_address_slot (gasToken txData) @ spec_address_slot (refundReceiver txData) @
                 spec_uint256_slot (tx_nonce txData)) = 352"
proof -
  have len: "\<And>bs. length (keccak256 bs) = 32" using assms(1) by (simp add: digest32_def)
  have "fst (calculateSafeTransactionHash this keccak256 safeAddress chainId' txData)
          = Inr (keccak256 (spec_packed keccak256 safeAddress chainId' txData))"
    by (simp add: calculateSafeTransactionHash_valid [OF assms])
  moreover have "length DOMAIN_SEPARATOR_TYPEHASH = 32" "length SAFE_TX_TYPEHASH = 32"
    by (simp_all add: DOMAIN_SEPARATOR_TYPEHASH_def SAFE_TX_TYPEHASH_def)
  ultimately show ?thesis
    using assms(2,3)
    by (simp add: spec_packed_def len length_spec_slots valid_SafeContext_def
        valid_SafeTransaction_def spec_domainSeparator_def spec_structHash_def)
qed

theorem calculateSafeTransactionHash_spec_witness:
  "digest32 sample_digest \<and> valid_SafeContext sample_safeAddress 100 \<and>
   valid_SafeTransaction sample_tx \<and>
   fst (calculateSafeTransactionHash sample_client sample_digest sample_safeAddress 100 sample_tx)
     = Inr (sample_digest ([0x19, 0x01] @ spec_domainSeparator sample_digest sample_safeAddress 100 @
                           spec_structHash sample_digest sample_tx))"
  using sample_inputs_valid
    calculateSafeTransactionHash_spec [OF sample_inputs_valid, of sample_client]
  by simp

text \<open>
  C2. On a valid SafeContext and SafeTransaction the method is a function of its arguments
  alone: there is one 32-byte digest that every invocation returns, whatever the state of
  the client object it is invoked on, and no invocation issues a request or writes to the
  console (its list of events is empty).
\<close>

theorem calculateSafeTransactionHash_deterministic:
  assumes "digest32 keccak256"
    and "valid_SafeContext safeAddress chainId'"
    and "valid_SafeTransaction txData"
  shows "\<exists>digest. length digest = 32 \<and>
           (\<forall>this. calculateSafeTransactionHash this keccak256 safeAddress chainId' txData
                     = (Inr digest, []))"
proof -
  let ?digest = "keccak256 (spec_packed keccak256 safeAddress chainId' txData)"
  have "length ?digest = 32" using assms(1) by (simp add: digest32_def)
  moreover have "\<forall>this. calculateSafeTransactionHash this keccak256 safeAddress chainId' txData
                          = (Inr ?digest, [])"
    by (simp add: calculateSafeTransactionHash_valid [OF assms])
  ultimately show ?thesis by blast
qed

theorem calculateSafeTransactionHash_deterministic_witness:
  "\<exists>digest. length digest = 32 \<and>
     (\<forall>this. calculateSafeTransactionHash this sample_digest sample_safeAddress 100 sample_tx
               = (Inr digest, []))"
  using calculateSafeTransactionHash_deterministic [OF sample_inputs_valid] by simp

section \<open>Further properties of the client\<close>

text \<open>
  X1. Two confirmations whose signers are address strings that differ only in letter case
  compare equal (under the assumption on the collation), and the stable sort keeps them in
  the order of the input: the bundle of such a pair is the first payload followed by the
  second, so it changes when the input order does.
\<close>

theorem combineSignatures_same_address_keeps_input_order:
  assumes "addressCollation localeCompare"
    and "addressSigners [a, b]"
    and "signerKey a = signerKey b"
    and "h r = [a, b]"
  shows "fst (combineSignatures localeCompare r h)
           = ''0x'' @ drop 2 (signature a) @ drop 2 (signature b)"
proof -
  have "test_safeAddress (value' (signer a))" "test_safeAddress (value' (signer b))"
    using assms(2) by (simp_all add: addressSigners_def)
  then have "compareSigners localeCompare a b \<le> 0"
    using assms(1,3) by (simp add: compareSigners_address_le_iff)
  then show ?thesis using assms(4) by (simp add: combineSignatures_fst)
qed

theorem combineSignatures_same_address_keeps_input_order_witness:
  "addressCollation codeUnitCompare \<and>
   addressSigners [conf_cA11, conf_ca11_lower] \<and>
   value' (signer conf_cA11) \<noteq> value' (signer conf_ca11_lower) \<and>
   signerKey conf_cA11 = signerKey conf_ca11_lower \<and>
   mset (store_mixed_lower 0) = mset (store_lower_mixed 0) \<and>
   fst (combineSignatures codeUnitCompare 0 store_mixed_lower)
     \<noteq> fst (combineSignatures codeUnitCompare 0 store_lower_mixed)"
proof -
  note c = addressCollation_codeUnitCompare
  have k: "signerKey conf_cA11 = signerKey conf_ca11_lower"
    "signerKey conf_ca11_lower = signerKey conf_cA11"
    by code_simp+
  have s: "addressSigners [conf_cA11, conf_ca11_lower]" "addressSigners [conf_ca11_lower, conf_cA11]"
    by (simp_all add: addressSigners_def conf_cA11_def conf_ca11_lower_def isHexDigit_def)
  have ml: "store_mixed_lower 0 = [conf_cA11, conf_ca11_lower]"
    and lm: "store_lower_mixed 0 = [conf_ca11_lower, conf_cA11]"
    by (simp_all add: store_mixed_lower_def store_lower_mixed_def)
  have "fst (combineSignatures codeUnitCompare 0 store_mixed_lower)
          = ''0x'' @ drop 2 (signature conf_cA11) @ drop 2 (signature conf_ca11_lower)"
    by (rule combineSignatures_same_address_keeps_input_order
          [where h = store_mixed_lower and r = 0, OF c s(1) k(1) ml])
  moreover have "fst (combineSignatures codeUnitCompare 0 store_lower_mixed)
          = ''0x'' @ drop 2 (signature conf_ca11_lower) @ drop 2 (signature conf_cA11)"
    by (rule combineSignatures_same_address_keeps_input_order
          [where h = store_lower_mixed and r = 0, OF c s(2) k(2) lm])
  moreover have "value' (signer conf_cA11) \<noteq> value' (signer conf_ca11_lower)"
    by (simp add: conf_cA11_def conf_ca11_lower_def)
  ultimately show ?thesis
    using k(1) c s(1) by (simp add: ml lm conf_cA11_def conf_ca11_lower_def)
qed

text \<open>
  X2. With a non-empty chain id and a Safe address that matches the pattern, \<open>getSafeInfo\<close>
  issues exactly one request, to \<open>baseUrl/v1/chains/chainId/safes/safeAddress\<close>; when the
  service answers 200 with a record that has an address and owners, the record is returned
  and nothing is logged.
\<close>

theorem getSafeInfo_fetches_once:
  assumes "chainId' \<noteq> []"
    and "test_safeAddress safeAddress"
  shows "(\<exists>result log. getSafeInfo this fetch chainId' safeAddress
            = (result, Fetch (baseUrl this @ ''/v1/chains/'' @ chainId' @ ''/safes/'' @ safeAddress) # log) \<and>
            (\<forall>url. Fetch url \<notin> set log)) \<and>
         (\<forall>info a os.
            fetch (baseUrl this @ ''/v1/chains/'' @ chainId' @ ''/safes/'' @ safeAddress)
              = Some \<lparr>status = 200, json = Some info\<rparr> \<and> address info = Some a \<and> owners info = Some os
            \<longrightarrow> getSafeInfo this fetch chainId' safeAddress
                  = (Inr info,
                     [Fetch (baseUrl this @ ''/v1/chains/'' @ chainId' @ ''/safes/'' @ safeAddress)]))"
proof -
  have ne: "safeAddress \<noteq> []" using assms(2) by (cases safeAddress) auto
  show ?thesis
    using assms ne
    by (auto simp: getSafeInfo_def getSafeInfo_body_def catch_log_def Let_def ok_def
        split: option.splits)
qed

theorem getSafeInfo_fetches_once_witness:
  "getSafeInfo sample_client network_safeInfo ''100'' ''0xcA11bde05977b3631167028862bE2a173976CA11''
     = (Inr sample_safeInfo,
        [Fetch (baseUrl sample_client @ ''/v1/chains/'' @ ''100'' @ ''/safes/'' @
                ''0xcA11bde05977b3631167028862bE2a173976CA11'')])"
proof -
  have c: "''100'' \<noteq> []" by simp
  have t: "test_safeAddress ''0xcA11bde05977b3631167028862bE2a173976CA11''"
    by (simp add: isHexDigit_def)
  have f: "network_safeInfo (baseUrl sample_client @ ''/v1/chains/'' @ ''100'' @ ''/safes/'' @
                             ''0xcA11bde05977b3631167028862bE2a173976CA11'')
             = Some \<lparr>status = 200, json = Some sample_safeInfo\<rparr>"
    by (simp add: network_safeInfo_def)
  have a: "address sample_safeInfo
             = Some \<lparr>value' = ''0xcA11bde05977b3631167028862bE2a173976CA11'', name = None, logoUri = None\<rparr>"
    and os: "owners sample_safeInfo
             = Some [\<lparr>value' = ''0x000000000000000000000000000000000000dEaD'', name = None, logoUri = None\<rparr>]"
    by (simp_all add: sample_safeInfo_def)
  show ?thesis
    using getSafeInfo_fetches_once [OF c t, of sample_client network_safeInfo] f a os
    by blast
qed

end
